theory Spec2Isabelle
  imports Complex_Main "HOL-Library.Word"
begin

section \<open>The oracle table of App.tsx\<close>

text \<open>
  The development follows the \<open>Home\<close> component of \<open>src/App.tsx\<close>: the refresh
  \<open>loadData\<close>, which asks the Hermes price service and the wrapper contract of every
  configured oracle for its latest price, and the table body, which derives the
  difference ratio, the minutes since the last update and the two cell colours
  (\<open>colorDiff\<close>, \<open>colorTime\<close>) of every row.
\<close>

subsection \<open>Numbers\<close>

text \<open>
  A JavaScript \<open>number\<close> is either \<open>NaN\<close>, one of the two infinities, or a finite
  value. Finite values are kept as exact rationals: the operations below follow the
  IEEE rules for the special values and do not round to 53 bits. The two zeros are
  identified (the program never divides by a zero and never prints the sign of one).
  The thresholds \<open>15\<close>, \<open>30\<close> and \<open>0.02\<close> and the divisors \<open>60\<close> and \<open>1e8\<close> are the
  rationals their literals denote.
\<close>

datatype jsnum = NaN | PosInf | NegInf | Fin rat

text \<open>
  The range of binary64: a value from \<open>2^1024 - 2^970\<close> on (half a step above the
  largest finite number) is an infinity, a value up to \<open>2^-1075\<close> (half the smallest
  positive number) is zero. The range is kept where a value enters the program and
  where such values are multiplied: in \<open>Number\<close>, in \<open>10 ** expo\<close> and in the
  product \<open>*\<close>. The differences and quotients of the table body are exact.
\<close>

definition range64 :: "rat \<Rightarrow> jsnum" where
  "range64 q =
     (if 2 ^ 1024 - 2 ^ 970 \<le> q then PosInf
      else if q \<le> - (2 ^ 1024 - 2 ^ 970) then NegInf
      else if \<bar>q\<bar> \<le> 1 / 2 ^ 1075 then Fin 0
      else Fin q)"

text \<open>Unary minus and \<open>Math.abs\<close>.\<close>

fun jneg :: "jsnum \<Rightarrow> jsnum" where
  "jneg NaN = NaN"
| "jneg PosInf = NegInf"
| "jneg NegInf = PosInf"
| "jneg (Fin a) = Fin (- a)"

fun jabs :: "jsnum \<Rightarrow> jsnum" where
  "jabs NaN = NaN"
| "jabs PosInf = PosInf"
| "jabs NegInf = PosInf"
| "jabs (Fin a) = Fin \<bar>a\<bar>"

text \<open>The comparison \<open>a < b\<close>: false as soon as one side is \<open>NaN\<close>.\<close>

fun jlt :: "jsnum \<Rightarrow> jsnum \<Rightarrow> bool" where
  "jlt NaN _ = False"
| "jlt _ NaN = False"
| "jlt (Fin a) (Fin b) = (a < b)"
| "jlt _ NegInf = False"
| "jlt PosInf _ = False"
| "jlt NegInf _ = True"
| "jlt (Fin a) PosInf = True"

text \<open>The binary operators \<open>a - b\<close>, \<open>a * b\<close> and \<open>a / b\<close>.\<close>

fun jsub :: "jsnum \<Rightarrow> jsnum \<Rightarrow> jsnum" where
  "jsub NaN _ = NaN"
| "jsub _ NaN = NaN"
| "jsub (Fin a) (Fin b) = Fin (a - b)"
| "jsub PosInf PosInf = NaN"
| "jsub NegInf NegInf = NaN"
| "jsub PosInf _ = PosInf"
| "jsub NegInf _ = NegInf"
| "jsub (Fin a) PosInf = NegInf"
| "jsub (Fin a) NegInf = PosInf"

fun jmul :: "jsnum \<Rightarrow> jsnum \<Rightarrow> jsnum" where
  "jmul NaN _ = NaN"
| "jmul _ NaN = NaN"
| "jmul (Fin a) (Fin b) = range64 (a * b)"
| "jmul (Fin a) PosInf = (if a = 0 then NaN else if 0 < a then PosInf else NegInf)"
| "jmul (Fin a) NegInf = (if a = 0 then NaN else if 0 < a then NegInf else PosInf)"
| "jmul PosInf (Fin b) = (if b = 0 then NaN else if 0 < b then PosInf else NegInf)"
| "jmul NegInf (Fin b) = (if b = 0 then NaN else if 0 < b then NegInf else PosInf)"
| "jmul PosInf PosInf = PosInf"
| "jmul PosInf NegInf = NegInf"
| "jmul NegInf PosInf = NegInf"
| "jmul NegInf NegInf = PosInf"

fun jdiv :: "jsnum \<Rightarrow> jsnum \<Rightarrow> jsnum" where
  "jdiv NaN _ = NaN"
| "jdiv _ NaN = NaN"
| "jdiv (Fin a) (Fin b) =
     (if b = 0 then (if a = 0 then NaN else if 0 < a then PosInf else NegInf)
      else Fin (a / b))"
| "jdiv (Fin a) _ = Fin 0"
| "jdiv PosInf (Fin b) = (if 0 \<le> b then PosInf else NegInf)"
| "jdiv NegInf (Fin b) = (if 0 \<le> b then NegInf else PosInf)"
| "jdiv _ _ = NaN"

subsection \<open>Rows of the table\<close>

text \<open>
  An entry of \<open>typedOracles\<close>, and the interface \<open>OracleRow\<close>; its field
  \<open>oracle\<close> is called \<open>row_oracle\<close> here, the source's name being a keyword.
\<close>

record oracle_cfg =
  assetPair :: string
  wrapperAddress :: string
  pythFeedId :: string

record OracleRow =
  row_oracle :: oracle_cfg
  lastOnChainPrice :: jsnum
  freshPrice :: jsnum
  lastUpdateTime :: jsnum
  isUpdating :: bool

subsection \<open>Colours and ratios of the table body\<close>

text \<open>
  \<^verbatim>\<open>
  function colorTime(minutes: number): string {
    if (minutes < 15) return "green";
    if (minutes < 30) return "goldenrod";
    return "red";
  }
  function colorDiff(diff: number): string {
    return Math.abs(diff) < 0.02 ? "green" : "red";
  }
  \<close>
\<close>

definition colorTime :: "jsnum \<Rightarrow> string" where
  "colorTime minutes =
     (if jlt minutes (Fin 15) then ''green''
      else if jlt minutes (Fin 30) then ''goldenrod''
      else ''red'')"

definition colorDiff :: "jsnum \<Rightarrow> string" where
  "colorDiff diff = (if jlt (jabs diff) (Fin (2 / 100)) then ''green'' else ''red'')"

text \<open>
  \<^verbatim>\<open>
  const diffRatio =
    r.lastOnChainPrice === 0
      ? 0
      : (r.freshPrice - r.lastOnChainPrice) / r.lastOnChainPrice;
  const minsSince = (nowSec - r.lastUpdateTime) / 60;
  \<close>
  \<open>nowSec\<close> is \<open>Math.floor(Date.now() / 1000)\<close>, an integer.
\<close>

definition diffRatio :: "OracleRow \<Rightarrow> jsnum" where
  "diffRatio r =
     (if lastOnChainPrice r = Fin 0 then Fin 0
      else jdiv (jsub (freshPrice r) (lastOnChainPrice r)) (lastOnChainPrice r))"

definition minsSince :: "int \<Rightarrow> OracleRow \<Rightarrow> jsnum" where
  "minsSince nowSec r = jdiv (jsub (Fin (of_int nowSec)) (lastUpdateTime r)) (Fin 60)"

subsection \<open>Reading a number out of a string\<close>

text \<open>
  \<open>Number(rawPriceStr)\<close> on a string follows the grammar \<open>StringNumericLiteral\<close> of
  the language: surrounding white space is dropped, the empty string is \<open>0\<close>, then
  either a hexadecimal, octal or binary integer (\<open>0x\<close>, \<open>0o\<close>, \<open>0b\<close>, unsigned) or an
  optionally signed decimal (\<open>Infinity\<close>, digits with an optional fraction and an
  optional exponent); everything else is \<open>NaN\<close>. The value read is brought into the
  range of binary64. A \<open>char\<close> stands for a code unit below 256.
\<close>

definition isWhite :: "char \<Rightarrow> bool" where
  "isWhite c = ((of_char c :: int) \<in> {9, 10, 11, 12, 13, 32, 160})"

definition trim :: "string \<Rightarrow> string" where
  "trim s = rev (dropWhile isWhite (rev (dropWhile isWhite s)))"

definition isDigit :: "char \<Rightarrow> bool" where
  "isDigit c = (48 \<le> (of_char c :: int) \<and> (of_char c :: int) \<le> 57)"

text \<open>The value of a digit of a base up to 16, \<open>None\<close> for any other character.\<close>

definition digitVal :: "int \<Rightarrow> char \<Rightarrow> int option" where
  "digitVal base c =
     (let n = (of_char c :: int);
          v = (if 48 \<le> n \<and> n \<le> 57 then Some (n - 48)
               else if 97 \<le> n \<and> n \<le> 102 then Some (n - 87)
               else if 65 \<le> n \<and> n \<le> 70 then Some (n - 55)
               else None)
      in case v of None \<Rightarrow> None | Some d \<Rightarrow> if d < base then Some d else None)"

fun digitsVal :: "int \<Rightarrow> int \<Rightarrow> string \<Rightarrow> int option" where
  "digitsVal base acc [] = Some acc"
| "digitsVal base acc (c # cs) =
     (case digitVal base c of
        None \<Rightarrow> None
      | Some d \<Rightarrow> digitsVal base (acc * base + d) cs)"

text \<open>A non-empty run of digits of the base, and nothing else.\<close>

definition numeral_of :: "int \<Rightarrow> string \<Rightarrow> int option" where
  "numeral_of base s = (if s = [] then None else digitsVal base 0 s)"

definition pow10 :: "int \<Rightarrow> rat" where
  "pow10 e = (if 0 \<le> e then 10 ^ nat e else 1 / 10 ^ nat (- e))"

text \<open>
  \<open>10 ** expo\<close> for an integer \<open>expo\<close>, in the range of binary64: the power is
  \<open>Infinity\<close> from \<open>309\<close> on and \<open>0\<close> below \<open>-323\<close>.
\<close>

definition jpow10 :: "int \<Rightarrow> jsnum" where
  "jpow10 e = (if 308 < e then PosInf else if e < - 323 then Fin 0 else Fin (pow10 e))"

definition parseSignedInteger :: "string \<Rightarrow> int option" where
  "parseSignedInteger s =
     (case s of
        [] \<Rightarrow> None
      | c # cs \<Rightarrow>
          if c = CHR ''-'' then map_option uminus (numeral_of 10 cs)
          else if c = CHR ''+'' then numeral_of 10 cs
          else numeral_of 10 s)"

text \<open>The optional exponent part, which has to reach the end of the string.\<close>

definition parseExponent :: "string \<Rightarrow> int option" where
  "parseExponent s =
     (case s of
        [] \<Rightarrow> Some 0
      | c # cs \<Rightarrow> if c = CHR ''e'' \<or> c = CHR ''E'' then parseSignedInteger cs else None)"

definition parseUnsignedDecimal :: "string \<Rightarrow> rat option" where
  "parseUnsignedDecimal s =
     (let ip = takeWhile isDigit s; r1 = dropWhile isDigit s;
          iv = (case digitsVal 10 0 ip of None \<Rightarrow> 0 | Some n \<Rightarrow> n)
      in case r1 of
           [] \<Rightarrow> if ip = [] then None else Some (of_int iv)
         | c # r \<Rightarrow>
             if c = CHR ''.'' then
               (let fp = takeWhile isDigit r; r2 = dropWhile isDigit r;
                    fv = (case digitsVal 10 0 fp of None \<Rightarrow> 0 | Some n \<Rightarrow> n)
                in if ip = [] \<and> fp = [] then None
                   else map_option
                          (\<lambda>e. (of_int iv + of_int fv / 10 ^ length fp) * pow10 e)
                          (parseExponent r2))
             else if ip = [] then None
             else map_option (\<lambda>e. of_int iv * pow10 e) (parseExponent r1))"

definition parseUnsigned :: "string \<Rightarrow> jsnum" where
  "parseUnsigned s =
     (if s = ''Infinity'' then PosInf
      else case parseUnsignedDecimal s of None \<Rightarrow> NaN | Some q \<Rightarrow> range64 q)"

definition parseDecimal :: "string \<Rightarrow> jsnum" where
  "parseDecimal s =
     (case s of
        [] \<Rightarrow> NaN
      | c # cs \<Rightarrow>
          if c = CHR ''-'' then jneg (parseUnsigned cs)
          else if c = CHR ''+'' then parseUnsigned cs
          else parseUnsigned s)"

definition parseNonDecimal :: "string \<Rightarrow> jsnum option" where
  "parseNonDecimal s =
     (case s of
        c # d # ds \<Rightarrow>
          if c \<noteq> CHR ''0'' then None
          else
            (let base = (if d = CHR ''x'' \<or> d = CHR ''X'' then Some (16 :: int)
                         else if d = CHR ''o'' \<or> d = CHR ''O'' then Some 8
                         else if d = CHR ''b'' \<or> d = CHR ''B'' then Some 2
                         else None)
             in case base of
                  None \<Rightarrow> None
                | Some b \<Rightarrow>
                    Some (case numeral_of b ds of None \<Rightarrow> NaN | Some n \<Rightarrow> range64 (of_int n)))
      | _ \<Rightarrow> None)"

definition Number :: "string \<Rightarrow> jsnum" where
  "Number str =
     (let s = trim str
      in if s = [] then Fin 0
         else case parseNonDecimal s of Some v \<Rightarrow> v | None \<Rightarrow> parseDecimal s)"

subsection \<open>The refresh: \<open>loadData\<close>\<close>

text \<open>
  An awaited call either throws or yields a value; \<open>catch\<close> sees the error.
\<close>

datatype error = NetworkError | HermesFetchFailed nat | JsonError | ReadContractError

datatype 'a promise = Rejected error | Fulfilled 'a

text \<open>
  The body of a Hermes answer, as far as the program reads it: \<open>data.parsed\<close>, the
  \<open>price\<close> object of an entry (\<open>p.price\<close>, here \<open>entry_price\<close>) and its fields
  \<open>price\<close> (a decimal string) and \<open>expo\<close> (an integer). Every one of them may be
  absent.
\<close>

record price_info =
  price :: "string option"
  expo :: "int option"

record parsed_entry =
  entry_price :: "price_info option"

record hermes_data =
  parsed :: "parsed_entry list option"

record http_response =
  ok :: bool
  status :: nat
  json :: "hermes_data promise"

text \<open>
  The tuple decoded from \<open>latestRoundData()\<close>:
  \<open>(uint80, int256, uint256, uint256, uint80)\<close>.
\<close>

type_synonym round_data = "80 word \<times> 256 word \<times> 256 word \<times> 256 word \<times> 80 word"

definition hermesUrl :: "oracle_cfg \<Rightarrow> string" where
  "hermesUrl x = ''https://hermes.pyth.network/v2/updates/price/latest?ids[]='' @ pythFeedId x"

text \<open>
  The price of the first parsed entry, the body of the \<open>if\<close> below:
  \<^verbatim>\<open>
  const p = parsedArr[0];
  const rawPriceStr = p.price?.price ?? "0";
  const expo = p.price?.expo ?? 0;
  freshPrice = Number(rawPriceStr) * 10 ** expo;
  \<close>
\<close>

definition parsedPrice :: "parsed_entry \<Rightarrow> jsnum" where
  "parsedPrice p =
     (let rawPriceStr =
            (case entry_price p of
               None \<Rightarrow> ''0''
             | Some pr \<Rightarrow> (case price pr of None \<Rightarrow> ''0'' | Some str \<Rightarrow> str));
          expo =
            (case entry_price p of
               None \<Rightarrow> 0
             | Some pr \<Rightarrow> (case expo pr of None \<Rightarrow> 0 | Some e \<Rightarrow> e))
      in jmul (Number rawPriceStr) (jpow10 expo))"

text \<open>
  The \<open>try\<close> block of the first loop, from the awaited \<open>fetch\<close> on:
  \<^verbatim>\<open>
  const resp = await fetch(hermesUrl);
  if (!resp.ok) {
    throw new Error(`Hermes fetch failed: ${resp.status}`);
  }
  const data = await resp.json();
  const parsedArr = data.parsed || [];
  let freshPrice = 0;
  if (parsedArr.length > 0) { ... }
  \<close>
\<close>

definition hermesTry :: "http_response promise \<Rightarrow> error + jsnum" where
  "hermesTry fetched =
     (case fetched of
        Rejected e \<Rightarrow> Inl e
      | Fulfilled resp \<Rightarrow>
          if \<not> ok resp then Inl (HermesFetchFailed (status resp))
          else
            (case json resp of
               Rejected e \<Rightarrow> Inl e
             | Fulfilled data \<Rightarrow>
                 (let parsedArr = (case parsed data of None \<Rightarrow> [] | Some arr \<Rightarrow> arr)
                  in case parsedArr of
                       [] \<Rightarrow> Inr (Fin 0)
                     | p # _ \<Rightarrow> Inr (parsedPrice p))))"

text \<open>
  \<^verbatim>\<open>
  const hermesMap: Record<string, { freshPrice: number }> = {};
  for (const o of typedOracles) {
    try { ...; hermesMap[o.pythFeedId] = { freshPrice }; }
    catch (e) { hermesMap[o.pythFeedId] = { freshPrice: 0 }; }
  }
  \<close>
  The calls are awaited one after the other; \<open>fetch i url\<close> is the outcome of call
  number \<open>i\<close> of the refresh.
\<close>

definition hermesEntry :: "http_response promise \<Rightarrow> jsnum" where
  "hermesEntry fetched = (case hermesTry fetched of Inl e \<Rightarrow> Fin 0 | Inr v \<Rightarrow> v)"

fun hermesLoop ::
  "(nat \<Rightarrow> string \<Rightarrow> http_response promise) \<Rightarrow> nat \<Rightarrow> oracle_cfg list \<Rightarrow>
   (string \<rightharpoonup> jsnum) \<Rightarrow> (string \<rightharpoonup> jsnum)" where
  "hermesLoop fetch i [] hermesMap = hermesMap"
| "hermesLoop fetch i (x # xs) hermesMap =
     hermesLoop fetch (Suc i) xs
       (hermesMap(pythFeedId x \<mapsto> hermesEntry (fetch i (hermesUrl x))))"

text \<open>
  \<^verbatim>\<open>
  const newRows: OracleRow[] = [];
  for (const o of typedOracles) {
    try {
      const result = (await publicClient.readContract({ address: o.wrapperAddress, ... }));
      const [, answer, , updatedAt] = result;
      const lastOnChainPrice = Number(answer) / 1e8;
      const lastUpdateTime = Number(updatedAt);
      newRows.push({ oracle: o, lastOnChainPrice,
        freshPrice: hermesMap[o.pythFeedId]?.freshPrice ?? 0,
        lastUpdateTime, isUpdating: false });
    } catch (err) {
      newRows.push({ oracle: o, lastOnChainPrice: 0, freshPrice: 0,
        lastUpdateTime: 0, isUpdating: false });
    }
  }
  setRows(newRows);
  \<close>
  \<open>answer\<close> is an \<open>int256\<close>, read signed; \<open>updatedAt\<close> is a \<open>uint256\<close>.
\<close>

definition chainRow ::
  "(string \<rightharpoonup> jsnum) \<Rightarrow> oracle_cfg \<Rightarrow> round_data promise \<Rightarrow> OracleRow" where
  "chainRow hermesMap x res =
     (case res of
        Fulfilled (roundId, answer, startedAt, updatedAt, answeredInRound) \<Rightarrow>
          \<lparr>row_oracle = x,
           lastOnChainPrice = jdiv (Fin (of_int (sint answer))) (Fin (10 ^ 8)),
           freshPrice = (case hermesMap (pythFeedId x) of None \<Rightarrow> Fin 0 | Some v \<Rightarrow> v),
           lastUpdateTime = Fin (of_int (uint updatedAt)),
           isUpdating = False\<rparr>
      | Rejected err \<Rightarrow>
          \<lparr>row_oracle = x,
           lastOnChainPrice = Fin 0,
           freshPrice = Fin 0,
           lastUpdateTime = Fin 0,
           isUpdating = False\<rparr>)"

fun chainLoop ::
  "(nat \<Rightarrow> string \<Rightarrow> round_data promise) \<Rightarrow> (string \<rightharpoonup> jsnum) \<Rightarrow> nat \<Rightarrow>
   oracle_cfg list \<Rightarrow> OracleRow list \<Rightarrow> OracleRow list" where
  "chainLoop readContract hermesMap i [] newRows = newRows"
| "chainLoop readContract hermesMap i (x # xs) newRows =
     chainLoop readContract hermesMap (Suc i) xs
       (newRows @ [chainRow hermesMap x (readContract i (wrapperAddress x))])"

definition loadData ::
  "(nat \<Rightarrow> string \<Rightarrow> http_response promise) \<Rightarrow> (nat \<Rightarrow> string \<Rightarrow> round_data promise) \<Rightarrow>
   oracle_cfg list \<Rightarrow> OracleRow list" where
  "loadData fetch readContract typedOracles =
     chainLoop readContract (hermesLoop fetch 0 typedOracles Map.empty) 0 typedOracles []"

subsection \<open>The cells of a table row\<close>

text \<open>
  \<open>x.toFixed(f)\<close> for \<open>f\<close> up to 100: the text of a value that is not finite; else the
  sign, and the digits of the integer \<open>n\<close> nearest to \<open>\<bar>x\<bar> * 10^f\<close> (the larger one
  of two) with a point before the last \<open>f\<close> of them. From \<open>10^21\<close> on the language
  prints the shortest digits that identify the binary value, which exact rationals do
  not determine: the result is \<open>None\<close> there.
\<close>

function digitsOf :: "int \<Rightarrow> string" where
  "digitsOf n =
     (if n < 10 then [char_of (48 + n)]
      else digitsOf (n div 10) @ [char_of (48 + n mod 10)])"
  by pat_completeness auto
termination
  by (relation "measure nat") auto

declare digitsOf.simps [simp del]

definition toFixed :: "nat \<Rightarrow> jsnum \<Rightarrow> string option" where
  "toFixed f num =
     (case num of
        NaN \<Rightarrow> Some ''NaN''
      | PosInf \<Rightarrow> Some ''Infinity''
      | NegInf \<Rightarrow> Some ''-Infinity''
      | Fin x \<Rightarrow>
          if 10 ^ 21 \<le> \<bar>x\<bar> then None
          else
            (let s = (if x < 0 then ''-'' else []);
                 n = \<lfloor>\<bar>x\<bar> * 10 ^ f + 1 / 2\<rfloor>;
                 m = digitsOf n;
                 m = (if f \<noteq> 0 then
                        (let m = replicate (f + 1 - length m) CHR ''0'' @ m;
                             k = length m
                         in take (k - f) m @ ''.'' @ drop (k - f) m)
                      else m)
             in Some (s @ m)))"

text \<open>
  The cells of one \<open><tr>\<close> of the table body:
  \<^verbatim>\<open>
  const diffPct = (diffRatio * 100).toFixed(2) + "%";
  <td>{r.oracle.assetPair}</td>
  <td>{r.lastOnChainPrice.toFixed(2)}</td>
  <td>{r.freshPrice.toFixed(2)}</td>
  <td style={{ color: colorDiff(diffRatio) }}>{diffPct}</td>
  <td style={{ color: colorTime(minsSince) }}>{minsSince.toFixed(1)} min</td>
  <button disabled={r.isUpdating}>
    {r.isUpdating ? "Updating..." : "Update for Reward"}</button>
  \<close>
\<close>

record row_cells =
  pairCell :: string
  onChainCell :: "string option"
  freshCell :: "string option"
  diffCell :: "string option"
  diffColor :: string
  timeCell :: "string option"
  timeColor :: string
  buttonDisabled :: bool
  buttonLabel :: string

definition renderRow :: "int \<Rightarrow> OracleRow \<Rightarrow> row_cells" where
  "renderRow nowSec r =
     \<lparr>pairCell = assetPair (row_oracle r),
      onChainCell = toFixed 2 (lastOnChainPrice r),
      freshCell = toFixed 2 (freshPrice r),
      diffCell = map_option (\<lambda>t. t @ ''%'') (toFixed 2 (jmul (diffRatio r) (Fin 100))),
      diffColor = colorDiff (diffRatio r),
      timeCell = map_option (\<lambda>t. t @ '' min'') (toFixed 1 (minsSince nowSec r)),
      timeColor = colorTime (minsSince nowSec r),
      buttonDisabled = isUpdating r,
      buttonLabel = (if isUpdating r then ''Updating...'' else ''Update for Reward'')\<rparr>"

subsection \<open>A sample configuration\<close>

text \<open>
  \<open>oracles.json\<close> is not among the sources. The examples below use three entries
  and a few outcomes of the two services.
\<close>

definition ethUsd :: oracle_cfg where
  "ethUsd = \<lparr>assetPair = ''ETH/USD'', wrapperAddress = ''0xA1'', pythFeedId = ''0xff61''\<rparr>"

definition btcUsd :: oracle_cfg where
  "btcUsd = \<lparr>assetPair = ''BTC/USD'', wrapperAddress = ''0xB2'', pythFeedId = ''0xe62d''\<rparr>"

definition solUsd :: oracle_cfg where
  "solUsd = \<lparr>assetPair = ''SOL/USD'', wrapperAddress = ''0xC3'', pythFeedId = ''0xef0d''\<rparr>"

definition threeOracles :: "oracle_cfg list" where
  "threeOracles = [ethUsd, btcUsd, solUsd]"

text \<open>A Hermes answer with status 200 and one parsed entry.\<close>

definition hermesOk :: "string \<Rightarrow> int \<Rightarrow> http_response promise" where
  "hermesOk str e =
     Fulfilled \<lparr>ok = True, status = 200,
                json = Fulfilled \<lparr>parsed = Some [\<lparr>entry_price = Some \<lparr>price = Some str, expo = Some e\<rparr>\<rparr>]\<rparr>\<rparr>"

definition fetchAll :: "nat \<Rightarrow> string \<Rightarrow> http_response promise" where
  "fetchAll i url = hermesOk ''25010000000'' (- 7)"

definition fetchSecondFails :: "nat \<Rightarrow> string \<Rightarrow> http_response promise" where
  "fetchSecondFails i url = (if i = 1 then Rejected NetworkError else fetchAll i url)"

definition fetchNone :: "nat \<Rightarrow> string \<Rightarrow> http_response promise" where
  "fetchNone i url = Rejected NetworkError"


definition readAll :: "nat \<Rightarrow> string \<Rightarrow> round_data promise" where
  "readAll i addr = Fulfilled (1, 250000000000, 1699998200, 1699998200, 1)"

definition readFirstFails :: "nat \<Rightarrow> string \<Rightarrow> round_data promise" where
  "readFirstFails i addr = (if i = 0 then Rejected ReadContractError else readAll i addr)"

definition readNone :: "nat \<Rightarrow> string \<Rightarrow> round_data promise" where
  "readNone i addr = Rejected ReadContractError"

definition readNegative :: "nat \<Rightarrow> string \<Rightarrow> round_data promise" where
  "readNegative i addr = Fulfilled (1, - 100000000, 1699998200, 1699998200, 1)"




definition fetchZero :: "nat \<Rightarrow> string \<Rightarrow> http_response promise" where
  "fetchZero i url = hermesOk ''0'' 0"

section \<open>Properties\<close>

subsection \<open>The range of binary64 in decimal\<close>

text \<open>The two bounds of \<open>range64\<close> written out, for evaluation.\<close>

lemma range64_code [code]:
  "range64 q =
     (if 179769313486231580793728971405303415079934132710037826936173778980444968292764750946649017977587207096330286416692887910946555547851940402630657488671505820681908902000708383676273854845817711531764475730270069855571366959622842914819860834936475292719074168444365510704342711559699508093042880177904174497792 \<le> q then PosInf
      else if q \<le> - 179769313486231580793728971405303415079934132710037826936173778980444968292764750946649017977587207096330286416692887910946555547851940402630657488671505820681908902000708383676273854845817711531764475730270069855571366959622842914819860834936475292719074168444365510704342711559699508093042880177904174497792 then NegInf
      else if \<bar>q\<bar> \<le> 1 / 404804506614621236704990693437834614099113299528284236713802716054860679135990693783920767402874248990374155728633623822779617474771586953734026799881477019843034848553132722728933815484186432682479535356945490137124014966849385397236206711298319112681620113024717539104666829230461005064372655017292012526615415482186989568 then Fin 0
      else Fin q)"
  by (simp add: range64_def)

lemma range64_zero: "range64 0 = Fin 0"
  by (simp add: range64_def)

subsection \<open>The two loops\<close>

text \<open>
  \<open>newRows.push\<close> appends, so the second loop yields its rows in the order of
  \<open>typedOracles\<close>, row \<open>k\<close> from call \<open>k\<close>. The first loop leaves under a feed
  identifier what the last fetch for it stored; when all fetches for an identifier
  store the same value, that value is what the rows read.
\<close>

lemma chainLoop_append:
  "chainLoop rd m i xs acc = acc @ chainLoop rd m i xs []"
proof (induction xs arbitrary: i acc)
  case Nil
  then show ?case by simp
next
  case (Cons x xs)
  show ?case
    using Cons.IH [of "Suc i" "acc @ [chainRow m x (rd i (wrapperAddress x))]"]
          Cons.IH [of "Suc i" "[chainRow m x (rd i (wrapperAddress x))]"]
    by simp
qed

lemma chainLoop_Cons:
  "chainLoop rd m i (x # xs) [] =
     chainRow m x (rd i (wrapperAddress x)) # chainLoop rd m (Suc i) xs []"
  using chainLoop_append [of rd m "Suc i" xs "[chainRow m x (rd i (wrapperAddress x))]"]
  by simp

lemma chainLoop_length: "length (chainLoop rd m i xs []) = length xs"
  by (induction xs arbitrary: i) (simp_all add: chainLoop_Cons del: chainLoop.simps(2))

lemma chainLoop_nth:
  "k < length xs \<Longrightarrow>
   chainLoop rd m i xs [] ! k = chainRow m (xs ! k) (rd (i + k) (wrapperAddress (xs ! k)))"
proof (induction xs arbitrary: i k)
  case Nil
  then show ?case by simp
next
  case (Cons x xs)
  show ?case
  proof (cases k)
    case 0
    then show ?thesis by (simp add: chainLoop_Cons del: chainLoop.simps(2))
  next
    case (Suc k')
    with Cons.prems have "k' < length xs" by simp
    from Cons.IH [OF this, of "Suc i"] Suc show ?thesis
      by (simp add: chainLoop_Cons del: chainLoop.simps(2))
  qed
qed

lemma chainRow_oracle: "row_oracle (chainRow m x res) = x"
  by (cases res) (auto simp: chainRow_def split: prod.splits)

lemma chainRow_isUpdating: "isUpdating (chainRow m x res) = False"
  by (cases res) (auto simp: chainRow_def split: prod.splits)



lemma loadData_length: "length (loadData f rd os) = length os"
  by (simp add: loadData_def chainLoop_length)

lemma loadData_nth:
  "k < length os \<Longrightarrow>
   loadData f rd os ! k =
     chainRow (hermesLoop f 0 os Map.empty) (os ! k) (rd k (wrapperAddress (os ! k)))"
  by (simp add: loadData_def chainLoop_nth)

lemma chainRow_Rejected:
  "chainRow m x (Rejected e) =
     \<lparr>row_oracle = x, lastOnChainPrice = Fin 0, freshPrice = Fin 0,
      lastUpdateTime = Fin 0, isUpdating = False\<rparr>"
  by (simp add: chainRow_def)



subsection \<open>Printing with a fixed number of decimals\<close>

text \<open>
  The digits of a positive integer do not start with a zero, so \<open>toFixed(1)\<close> prints
  \<open>0.0\<close> for no value from \<open>0.05\<close> on.
\<close>

lemma toFixed_zero_2: "toFixed 2 (Fin 0) = Some ''0.00''"
  by code_simp

lemma digitsOf_nonempty: "digitsOf n \<noteq> []"
  by (subst digitsOf.simps) simp

lemma digitsOf_hd:
  "1 \<le> n \<Longrightarrow> hd (digitsOf n) \<noteq> CHR ''0''"
proof (induction n rule: digitsOf.induct)
  case (1 n)
  show ?case
  proof (cases "n < 10")
    case True
    have "of_char (char_of (48 + n)) \<noteq> (of_char CHR ''0'' :: int)"
      using True "1.prems" by simp
    then have "char_of (48 + n) \<noteq> CHR ''0''" by metis
    with True show ?thesis by (subst digitsOf.simps) simp
  next
    case False
    then have "1 \<le> n div 10" by simp
    from "1.IH" [OF False this] False show ?thesis
      by (subst digitsOf.simps) (simp add: digitsOf_nonempty)
  qed
qed

lemma toFixed_1_not_zero:
  assumes "1 / 20 \<le> y"
  shows "toFixed 1 (Fin y) \<noteq> Some ''0.0''"
proof (cases "10 ^ 21 \<le> \<bar>y\<bar>")
  case True
  then show ?thesis by (simp add: toFixed_def)
next
  case False
  define n where "n = \<lfloor>\<bar>y\<bar> * 10 ^ 1 + 1 / 2\<rfloor>"
  define m where "m = digitsOf n"
  define m' where "m' = replicate (1 + 1 - length m) CHR ''0'' @ m"
  from assms have "1 \<le> \<bar>y\<bar> * 10 ^ 1 + 1 / 2" by simp
  then have "1 \<le> n" unfolding n_def by (simp add: le_floor_iff)
  from digitsOf_hd [OF this] have hd: "hd m \<noteq> CHR ''0''" by (simp add: m_def)
  have ne: "m \<noteq> []" by (simp add: m_def digitsOf_nonempty)
  have res: "toFixed 1 (Fin y) = Some (take (length m' - 1) m' @ ''.'' @ drop (length m' - 1) m')"
    using False assms by (simp add: toFixed_def Let_def n_def m_def m'_def)
  show ?thesis
  proof
    assume "toFixed 1 (Fin y) = Some ''0.0''"
    with res have eq: "take (length m' - 1) m' @ ''.'' @ drop (length m' - 1) m' = ''0.0''"
      by simp
    from arg_cong [OF this, of length] have "length m' = 2" by simp
    with eq have m'0: "m' = ''00''"
      by (cases m'; cases "tl m'") auto
    show False
    proof (cases "length m = 1")
      case True
      then have "m' = CHR ''0'' # m" by (simp add: m'_def)
      with m'0 have "m = ''0''" by simp
      with hd show False by simp
    next
      case False
      with ne have "2 \<le> length m" by (cases m; cases "tl m") auto
      then have "m' = m" by (simp add: m'_def)
      with m'0 hd show False by simp
    qed
  qed
qed

subsection \<open>The difference ratio\<close>

text \<open>
  C1. For every on-chain price and reference price of a row, the ratio of the row is
  \<open>(freshPrice - lastOnChainPrice) / lastOnChainPrice\<close> when the on-chain price is
  not \<open>0\<close>, and exactly \<open>0\<close> when it is \<open>0\<close>, whatever the reference price (also
  \<open>NaN\<close> or an infinity). For finite values \<open>p \<noteq> 0\<close> and \<open>q\<close> the ratio is the
  rational \<open>(q - p) / p\<close>.
\<close>

theorem diffRatio_contract:
  "(lastOnChainPrice r = Fin 0 \<longrightarrow> diffRatio r = Fin 0) \<and>
   (lastOnChainPrice r \<noteq> Fin 0 \<longrightarrow>
      diffRatio r = jdiv (jsub (freshPrice r) (lastOnChainPrice r)) (lastOnChainPrice r)) \<and>
   (\<forall>p q. lastOnChainPrice r = Fin p \<and> freshPrice r = Fin q \<and> p \<noteq> 0 \<longrightarrow>
      diffRatio r = Fin ((q - p) / p))"
  by (simp add: diffRatio_def)

theorem diffRatio_contract_witness:
  "diffRatio \<lparr>row_oracle = ethUsd, lastOnChainPrice = Fin 0, freshPrice = Fin 2501,
              lastUpdateTime = Fin 1699998200, isUpdating = False\<rparr> = Fin 0 \<and>
   diffRatio \<lparr>row_oracle = ethUsd, lastOnChainPrice = Fin 2500, freshPrice = Fin 2501,
              lastUpdateTime = Fin 1699998200, isUpdating = False\<rparr> = Fin (4 / 10000)"
  using
    diffRatio_contract [of "\<lparr>row_oracle = ethUsd, lastOnChainPrice = Fin 0, freshPrice = Fin 2501,
              lastUpdateTime = Fin 1699998200, isUpdating = False\<rparr>"]
    diffRatio_contract [of "\<lparr>row_oracle = ethUsd, lastOnChainPrice = Fin 2500, freshPrice = Fin 2501,
              lastUpdateTime = Fin 1699998200, isUpdating = False\<rparr>"]
  by simp

subsection \<open>The colour of the time cell\<close>

text \<open>
  C2. \<open>colorTime\<close> (the staleness classes FRESH, AGING and STALE are the colours
  green, goldenrod and red) maps every number of minutes below \<open>15\<close> to green, every
  one from \<open>15\<close> and below \<open>30\<close> to goldenrod, and every one from \<open>30\<close> on to red;
  \<open>15\<close> itself is goldenrod and \<open>30\<close> itself is red, and a negative number of
  minutes is green, as any other value below \<open>15\<close> (\<open>-Infinity\<close> too; \<open>Infinity\<close>
  is red).
\<close>

theorem colorTime_thresholds:
  "(x < 15 \<longrightarrow> colorTime (Fin x) = ''green'') \<and>
   (15 \<le> x \<and> x < 30 \<longrightarrow> colorTime (Fin x) = ''goldenrod'') \<and>
   (30 \<le> x \<longrightarrow> colorTime (Fin x) = ''red'') \<and>
   (x < 0 \<longrightarrow> colorTime (Fin x) = ''green'') \<and>
   colorTime NegInf = ''green'' \<and> colorTime PosInf = ''red'' \<and>
   colorTime (Fin 15) = ''goldenrod'' \<and> colorTime (Fin 30) = ''red''"
  by (simp add: colorTime_def)

theorem colorTime_thresholds_witness:
  "colorTime (Fin (14999 / 1000)) = ''green'' \<and>
   colorTime (Fin (29999 / 1000)) = ''goldenrod'' \<and>
   colorTime (Fin 45) = ''red'' \<and>
   colorTime (Fin (- 5)) = ''green''"
  using colorTime_thresholds [of "14999 / 1000"] colorTime_thresholds [of "29999 / 1000"]
    colorTime_thresholds [of 45] colorTime_thresholds [of "- 5"]
  by simp

subsection \<open>The colour of the difference cell\<close>

text \<open>
  C3. \<open>colorDiff\<close> (ALIGNED is green, DIVERGENT is red) maps every ratio \<open>x\<close> with
  \<open>\<bar>x\<bar> < 0.02\<close> to green and every other ratio, \<open>NaN\<close> and the infinities
  included, to red; a ratio and its negation get the same colour; \<open>0.0199\<close> is green
  and \<open>0.02\<close> is red.
\<close>

theorem colorDiff_symmetric:
  "(\<bar>x\<bar> < 2 / 100 \<longrightarrow> colorDiff (Fin x) = ''green'') \<and>
   (\<not> \<bar>x\<bar> < 2 / 100 \<longrightarrow> colorDiff (Fin x) = ''red'') \<and>
   colorDiff NaN = ''red'' \<and> colorDiff PosInf = ''red'' \<and> colorDiff NegInf = ''red'' \<and>
   colorDiff (jneg d) = colorDiff d \<and>
   colorDiff (Fin (199 / 10000)) = ''green'' \<and> colorDiff (Fin (2 / 100)) = ''red''"
  by (cases d) (simp_all add: colorDiff_def)

theorem colorDiff_symmetric_witness:
  "colorDiff (Fin (- (1 / 100))) = ''green'' \<and> colorDiff (Fin (- (2 / 100))) = ''red'' \<and>
   colorDiff (Fin (4 / 10000)) = ''green'' \<and> colorDiff (Fin (- 1)) = ''red''"
  using colorDiff_symmetric [of "- (1 / 100)" NaN] colorDiff_symmetric [of "- (2 / 100)" NaN]
    colorDiff_symmetric [of "4 / 10000" NaN] colorDiff_symmetric [of "- 1" NaN]
  by simp

subsection \<open>A failed read of the wrapper contract\<close>

text \<open>
  C4, as stated, fails. The \<open>catch\<close> block of the second loop pushes a row whose
  \<open>freshPrice\<close> is the literal \<open>0\<close>: when the read of the first oracle throws, the
  price \<open>2501\<close> that Hermes delivered for it is not in its row.
\<close>

theorem read_failure_keeps_reference_counterexample:
  "hermesTry (fetchAll 0 (hermesUrl (threeOracles ! 0))) = Inr (Fin 2501) \<and>
   readFirstFails 0 (wrapperAddress (threeOracles ! 0)) = Rejected ReadContractError \<and>
   freshPrice (loadData fetchAll readFirstFails threeOracles ! 0) = Fin 0 \<and>
   freshPrice (loadData fetchAll readFirstFails threeOracles ! 0) \<noteq> Fin 2501"
  by code_simp

text \<open>
  C4, amended. When the read of the wrapper contract fails for one entry, the row of
  that entry holds \<open>0\<close> for the on-chain price, for the update time and for the
  reference price as well, whatever Hermes answered for it; the rows of all other
  entries are what they are when that read succeeds.
\<close>

theorem read_failure_zero_row:
  assumes "i < length typedOracles"
    and "readContract i (wrapperAddress (typedOracles ! i)) = Rejected e"
  shows "loadData fetch readContract typedOracles ! i =
           \<lparr>row_oracle = typedOracles ! i, lastOnChainPrice = Fin 0, freshPrice = Fin 0,
            lastUpdateTime = Fin 0, isUpdating = False\<rparr> \<and>
         (\<forall>readContract' j.
            j < length typedOracles \<and> j \<noteq> i \<and>
            (\<forall>k addr. k \<noteq> i \<longrightarrow> readContract' k addr = readContract k addr) \<longrightarrow>
            loadData fetch readContract' typedOracles ! j =
              loadData fetch readContract typedOracles ! j)"
  using assms by (simp add: loadData_nth chainRow_Rejected)

theorem read_failure_zero_row_witness:
  "loadData fetchAll readFirstFails threeOracles ! 0 =
     \<lparr>row_oracle = ethUsd, lastOnChainPrice = Fin 0, freshPrice = Fin 0,
      lastUpdateTime = Fin 0, isUpdating = False\<rparr> \<and>
   loadData fetchAll readAll threeOracles ! 1 = loadData fetchAll readFirstFails threeOracles ! 1 \<and>
   loadData fetchAll readAll threeOracles ! 2 = loadData fetchAll readFirstFails threeOracles ! 2"
proof -
  have len: "0 < length threeOracles" by (simp add: threeOracles_def)
  have rej: "readFirstFails 0 (wrapperAddress (threeOracles ! 0)) = Rejected ReadContractError"
    by (simp add: readFirstFails_def)
  note inst = read_failure_zero_row [of 0 threeOracles readFirstFails ReadContractError fetchAll,
    OF len rej]
  have first: "threeOracles ! 0 = ethUsd" by (simp add: threeOracles_def)
  have others:
    "j < length threeOracles \<and> j \<noteq> 0 \<and>
     (\<forall>k addr. k \<noteq> 0 \<longrightarrow> readAll k addr = readFirstFails k addr)"
    if "j = 1 \<or> j = 2" for j :: nat
    using that by (auto simp: threeOracles_def readFirstFails_def)
  from inst [THEN conjunct1] first
  have "loadData fetchAll readFirstFails threeOracles ! 0 =
     \<lparr>row_oracle = ethUsd, lastOnChainPrice = Fin 0, freshPrice = Fin 0,
      lastUpdateTime = Fin 0, isUpdating = False\<rparr>"
    by simp
  moreover from inst [THEN conjunct2, THEN spec, THEN spec, THEN mp, OF others [of 1]]
  have "loadData fetchAll readAll threeOracles ! 1 = loadData fetchAll readFirstFails threeOracles ! 1"
    by simp
  moreover from inst [THEN conjunct2, THEN spec, THEN spec, THEN mp, OF others [of 2]]
  have "loadData fetchAll readAll threeOracles ! 2 = loadData fetchAll readFirstFails threeOracles ! 2"
    by simp
  ultimately show ?thesis by blast
qed

subsection \<open>The price read from a Hermes entry\<close>




subsection \<open>One row for every entry, in the order of the configuration\<close>

text \<open>
  C6. Whatever the two services answer, \<open>loadData\<close> yields exactly one row for every
  entry of \<open>typedOracles\<close>, and row \<open>k\<close> belongs to entry \<open>k\<close>: the rows come in the
  order of the configuration, whatever the fetched values are.
\<close>

theorem loadData_order:
  "length (loadData fetch readContract typedOracles) = length typedOracles \<and>
   map row_oracle (loadData fetch readContract typedOracles) = typedOracles"
proof
  show "length (loadData fetch readContract typedOracles) = length typedOracles"
    by (rule loadData_length)
  show "map row_oracle (loadData fetch readContract typedOracles) = typedOracles"
    by (rule nth_equalityI) (simp_all add: loadData_length loadData_nth chainRow_oracle)
qed

subsection \<open>A failed Hermes fetch\<close>




subsection \<open>The sign of the ratio\<close>

text \<open>
  C8, as stated, fails. The on-chain answer is a signed integer; with the answer
  \<open>-100000000\<close>, the price \<open>-1\<close>, and the reference price \<open>0\<close>, the reference price is
  the higher one and the ratio is \<open>(0 - (-1)) / (-1) = -1\<close>, a negative number.
\<close>

theorem ratio_sign_counterexample:
  "lastOnChainPrice (loadData fetchZero readNegative threeOracles ! 0) = Fin (- 1) \<and>
   freshPrice (loadData fetchZero readNegative threeOracles ! 0) = Fin 0 \<and>
   jlt (lastOnChainPrice (loadData fetchZero readNegative threeOracles ! 0))
       (freshPrice (loadData fetchZero readNegative threeOracles ! 0)) \<and>
   diffRatio (loadData fetchZero readNegative threeOracles ! 0) = Fin (- 1) \<and>
   \<not> jlt (Fin 0) (diffRatio (loadData fetchZero readNegative threeOracles ! 0))"
  by code_simp

text \<open>
  C8, amended. For every finite on-chain price above \<open>0\<close> and every reference price,
  the ratio is positive exactly when the reference price is higher than the on-chain
  price, and negative exactly when it is lower.
\<close>

theorem diffRatio_sign:
  assumes "lastOnChainPrice r = Fin p" and "0 < p"
  shows "(jlt (Fin 0) (diffRatio r) \<longleftrightarrow> jlt (lastOnChainPrice r) (freshPrice r)) \<and>
         (jlt (diffRatio r) (Fin 0) \<longleftrightarrow> jlt (freshPrice r) (lastOnChainPrice r))"
  using assms
  by (cases "freshPrice r") (simp_all add: diffRatio_def zero_less_divide_iff divide_less_0_iff)

theorem diffRatio_sign_witness:
  "jlt (Fin 0) (diffRatio (loadData fetchAll readAll threeOracles ! 0)) \<and>
   \<not> jlt (diffRatio (loadData fetchAll readAll threeOracles ! 0)) (Fin 0) \<and>
   jlt (diffRatio (loadData fetchSecondFails readAll threeOracles ! 1)) (Fin 0)"
proof -
  have a: "lastOnChainPrice (loadData fetchAll readAll threeOracles ! 0) = Fin 2500"
    and b: "freshPrice (loadData fetchAll readAll threeOracles ! 0) = Fin 2501"
    and c: "lastOnChainPrice (loadData fetchSecondFails readAll threeOracles ! 1) = Fin 2500"
    and d: "freshPrice (loadData fetchSecondFails readAll threeOracles ! 1) = Fin 0"
    by code_simp+
  have p: "(0 :: rat) < 2500" by simp
  from diffRatio_sign [OF a p] diffRatio_sign [OF c p] a b c d
  show ?thesis by simp
qed

subsection \<open>The row of a feed that could not be read\<close>

text \<open>
  C9, as stated, fails. The zero row has the update time \<open>0\<close>, so its minutes since the
  update are the minutes since the start of 1970: at the second \<open>1700000000\<close> the time
  cell of the row reads \<open>28333333.3 min\<close>, not \<open>0.0 min\<close>.
\<close>

theorem zero_row_minutes_counterexample:
  "loadData fetchNone readNone threeOracles ! 0 =
     \<lparr>row_oracle = ethUsd, lastOnChainPrice = Fin 0, freshPrice = Fin 0,
      lastUpdateTime = Fin 0, isUpdating = False\<rparr> \<and>
   timeCell (renderRow 1700000000 (loadData fetchNone readNone threeOracles ! 0)) =
     Some ''28333333.3 min'' \<and>
   timeCell (renderRow 1700000000 (loadData fetchNone readNone threeOracles ! 0)) \<noteq>
     Some ''0.0 min''"
  by code_simp

text \<open>
  C9, amended. A row that holds the three zeros (on-chain price, update time and
  reference price \<open>0\<close>) shows the price \<open>0.00\<close> twice and the difference \<open>0.00%\<close> in green
  (ALIGNED); its minutes since the update are \<open>nowSec / 60\<close>, the minutes since the
  start of 1970, shown with one decimal, which is not \<open>0.0 min\<close> from the third second
  of 1970 on; the time cell is red (STALE) whenever \<open>nowSec\<close> is at least \<open>1800\<close>.
\<close>

theorem zero_row_cells:
  assumes "lastOnChainPrice r = Fin 0" and "freshPrice r = Fin 0" and "lastUpdateTime r = Fin 0"
  shows "onChainCell (renderRow nowSec r) = Some ''0.00'' \<and>
         freshCell (renderRow nowSec r) = Some ''0.00'' \<and>
         diffRatio r = Fin 0 \<and>
         diffCell (renderRow nowSec r) = Some ''0.00%'' \<and>
         diffColor (renderRow nowSec r) = ''green'' \<and>
         minsSince nowSec r = Fin (of_int nowSec / 60) \<and>
         timeCell (renderRow nowSec r) =
           map_option (\<lambda>t. t @ '' min'') (toFixed 1 (Fin (of_int nowSec / 60))) \<and>
         (3 \<le> nowSec \<longrightarrow> timeCell (renderRow nowSec r) \<noteq> Some ''0.0 min'') \<and>
         (1800 \<le> nowSec \<longrightarrow> timeColor (renderRow nowSec r) = ''red'')"
proof -
  have ratio: "diffRatio r = Fin 0" using assms by (simp add: diffRatio_def)
  have mins: "minsSince nowSec r = Fin (of_int nowSec / 60)"
    using assms by (simp add: minsSince_def)
  have stale: "colorTime (Fin (of_int nowSec / 60)) = ''red''" if "1800 \<le> nowSec"
  proof -
    from that have "(1800 :: rat) \<le> of_int nowSec" by linarith
    then show ?thesis by (simp add: colorTime_def)
  qed
  have cell: "map_option (\<lambda>t. t @ '' min'') (toFixed 1 (Fin (of_int nowSec / 60))) \<noteq>
      Some ''0.0 min''" if "3 \<le> nowSec"
  proof -
    from that have "(3 :: rat) \<le> of_int nowSec" by linarith
    then have "1 / 20 \<le> (of_int nowSec :: rat) / 60" by simp
    from toFixed_1_not_zero [OF this] show ?thesis
      by (cases "toFixed 1 (Fin (of_int nowSec / 60))") auto
  qed
  have "colorDiff (Fin 0) = ''green''" by (simp add: colorDiff_def)
  with assms ratio mins stale cell toFixed_zero_2 show ?thesis
    by (simp add: renderRow_def range64_zero)
qed

theorem zero_row_cells_witness:
  "onChainCell (renderRow 1700000000 (loadData fetchNone readNone threeOracles ! 0)) = Some ''0.00'' \<and>
   diffColor (renderRow 1700000000 (loadData fetchNone readNone threeOracles ! 0)) = ''green'' \<and>
   timeCell (renderRow 1700000000 (loadData fetchNone readNone threeOracles ! 0)) \<noteq>
     Some ''0.0 min'' \<and>
   timeColor (renderRow 1700000000 (loadData fetchNone readNone threeOracles ! 0)) = ''red''"
proof -
  have a: "lastOnChainPrice (loadData fetchNone readNone threeOracles ! 0) = Fin 0"
    and b: "freshPrice (loadData fetchNone readNone threeOracles ! 0) = Fin 0"
    and c: "lastUpdateTime (loadData fetchNone readNone threeOracles ! 0) = Fin 0"
    by code_simp+
  have t: "(3 :: int) \<le> 1700000000" "(1800 :: int) \<le> 1700000000" by simp_all
  from zero_row_cells [OF a b c, of 1700000000] t show ?thesis by blast
qed

subsection \<open>The update flag\<close>

text \<open>
  C10. Every row that \<open>loadData\<close> yields has \<open>isUpdating = false\<close>, on the branch of a
  successful read as on the \<open>catch\<close> branch: the refresh marks no row as being
  updated.
\<close>

theorem loadData_not_updating:
  "map isUpdating (loadData fetch readContract typedOracles) =
     replicate (length typedOracles) False"
  by (rule nth_equalityI) (simp_all add: loadData_length loadData_nth chainRow_isUpdating)

end
